theory Spec2Isabelle
  imports Complex_Main
begin

section \<open>Bird versus worm: the pursuit simulation of simulation.py\<close>

text \<open>
  The program computes with Python floats, which are IEEE 754 binary64 numbers. The model
  keeps them: a float is a real number that a double represents, an infinity or NaN, and
  every operation rounds its exact result to the nearest double, a tie going to the even
  mantissa. The two zeros of the format are one value here: the program never tells them
  apart (it has no \<open>copysign\<close> or \<open>atan2\<close>, and a division by either raises).
  A division by zero raises \<open>ZeroDivisionError\<close>, a square that overflows raises
  \<open>OverflowError\<close>, \<open>int\<close> of an infinity or NaN raises \<open>OverflowError\<close> or
  \<open>ValueError\<close>; sums, differences and products overflow to an infinity silently.
  The module-level configuration is a record passed to every function, and the random
  generator is an explicit stream that each draw consumes.
\<close>

subsection \<open>Doubles\<close>

datatype py_error = ZeroDivisionError | OverflowError | ValueError

datatype fval = Finite real | PInf | NInf | NaN

text \<open>Rounding a real to the nearest integer, a tie going to the even one.\<close>

definition rne :: "real \<Rightarrow> int" where
  "rne q =
     (let lower = \<lfloor>q\<rfloor>; rest = q - of_int lower
      in if rest < 1 / 2 then lower
         else if 1 / 2 < rest then lower + 1
         else if even lower then lower else lower + 1)"

text \<open>
  The binary exponent of a nonzero real, not below the exponent -1022 of the subnormal
  doubles, and the distance \<open>ulp\<close> between the doubles of that exponent (53 bits of
  mantissa).
\<close>

definition expo :: "real \<Rightarrow> int" where
  "expo v = max (- 1022) \<lfloor>log 2 \<bar>v\<bar>\<rfloor>"

definition ulp :: "real \<Rightarrow> real" where
  "ulp v = 2 powr of_int (expo v - 52)"

text \<open>
  The double nearest to a real: the nearest multiple of \<open>ulp v\<close>, or an infinity
  when that multiple reaches \<open>2 ^ 1024\<close>.
\<close>

definition fl :: "real \<Rightarrow> fval" where
  "fl v =
     (if v = 0 then Finite 0
      else let r = of_int (rne (v / ulp v)) * ulp v
           in if 2 ^ 1024 \<le> r then PInf
              else if r \<le> - (2 ^ 1024) then NInf
              else Finite r)"

text \<open>The operators \<open>+\<close>, \<open>-\<close> and \<open>*\<close> on floats: they never raise.\<close>

fun fadd :: "fval \<Rightarrow> fval \<Rightarrow> fval" where
  "fadd (Finite a) (Finite b) = fl (a + b)"
| "fadd NaN _ = NaN"
| "fadd _ NaN = NaN"
| "fadd PInf NInf = NaN"
| "fadd NInf PInf = NaN"
| "fadd PInf _ = PInf"
| "fadd _ PInf = PInf"
| "fadd NInf _ = NInf"
| "fadd _ NInf = NInf"

fun fsub :: "fval \<Rightarrow> fval \<Rightarrow> fval" where
  "fsub (Finite a) (Finite b) = fl (a - b)"
| "fsub NaN _ = NaN"
| "fsub _ NaN = NaN"
| "fsub PInf PInf = NaN"
| "fsub NInf NInf = NaN"
| "fsub PInf _ = PInf"
| "fsub NInf _ = NInf"
| "fsub _ PInf = NInf"
| "fsub _ NInf = PInf"

fun fmul :: "fval \<Rightarrow> fval \<Rightarrow> fval" where
  "fmul (Finite a) (Finite b) = fl (a * b)"
| "fmul NaN _ = NaN"
| "fmul _ NaN = NaN"
| "fmul (Finite a) PInf = (if a = 0 then NaN else if 0 < a then PInf else NInf)"
| "fmul (Finite a) NInf = (if a = 0 then NaN else if 0 < a then NInf else PInf)"
| "fmul PInf (Finite b) = (if b = 0 then NaN else if 0 < b then PInf else NInf)"
| "fmul NInf (Finite b) = (if b = 0 then NaN else if 0 < b then NInf else PInf)"
| "fmul PInf PInf = PInf"
| "fmul PInf NInf = NInf"
| "fmul NInf PInf = NInf"
| "fmul NInf NInf = PInf"

text \<open>
  The operator \<open>/\<close> on floats: a zero divisor raises, whatever the dividend is; an
  overflowing quotient is an infinity.
\<close>

fun truediv :: "fval \<Rightarrow> fval \<Rightarrow> py_error + fval" where
  "truediv a (Finite b) =
     (if b = 0 then Inl ZeroDivisionError
      else Inr (case a of
                  Finite a' \<Rightarrow> fl (a' / b)
                | PInf \<Rightarrow> (if 0 < b then PInf else NInf)
                | NInf \<Rightarrow> (if 0 < b then NInf else PInf)
                | NaN \<Rightarrow> NaN))"
| "truediv NaN _ = Inr NaN"
| "truediv _ NaN = Inr NaN"
| "truediv (Finite a) _ = Inr (Finite 0)"
| "truediv _ _ = Inr NaN"

text \<open>
  \<open>v ** 2\<close>: the rounded square; the interpreter raises \<open>OverflowError\<close> when the
  square of a finite float overflows. The square of an infinity is the positive infinity.
\<close>

fun py_pow2 :: "fval \<Rightarrow> py_error + fval" where
  "py_pow2 (Finite a) =
     (case fl (a * a) of Finite r \<Rightarrow> Inr (Finite r) | _ \<Rightarrow> Inl OverflowError)"
| "py_pow2 NaN = Inr NaN"
| "py_pow2 _ = Inr PInf"

text \<open>\<open>math.sqrt\<close>: the rounded square root; a negative argument raises.\<close>

fun math_sqrt :: "fval \<Rightarrow> py_error + fval" where
  "math_sqrt (Finite a) = (if a < 0 then Inl ValueError else Inr (fl (sqrt a)))"
| "math_sqrt PInf = Inr PInf"
| "math_sqrt NInf = Inl ValueError"
| "math_sqrt NaN = Inr NaN"

text \<open>The comparisons \<open><\<close> and \<open><=\<close>: false as soon as one side is NaN.\<close>

fun flt :: "fval \<Rightarrow> fval \<Rightarrow> bool" where
  "flt (Finite a) (Finite b) = (a < b)"
| "flt NaN _ = False"
| "flt _ NaN = False"
| "flt _ NInf = False"
| "flt PInf _ = False"
| "flt _ _ = True"

fun fle :: "fval \<Rightarrow> fval \<Rightarrow> bool" where
  "fle (Finite a) (Finite b) = (a \<le> b)"
| "fle NaN _ = False"
| "fle _ NaN = False"
| "fle NInf _ = True"
| "fle _ PInf = True"
| "fle _ _ = False"

text \<open>\<open>int(v)\<close> on a float: truncation toward zero.\<close>

fun py_int :: "fval \<Rightarrow> py_error + int" where
  "py_int (Finite v) = Inr (if 0 \<le> v then \<lfloor>v\<rfloor> else \<lceil>v\<rceil>)"
| "py_int NaN = Inl ValueError"
| "py_int _ = Inl OverflowError"

text \<open>
  \<open>round(v, ndigits)\<close> for a small non-negative \<open>ndigits\<close>: the double nearest to
  the decimal with \<open>ndigits\<close> places that is nearest to the exact value of \<open>v\<close>, a
  tie going to the even last digit. An infinity or NaN is returned as it is.
\<close>

fun py_round :: "fval \<Rightarrow> nat \<Rightarrow> fval" where
  "py_round (Finite v) ndigits = fl (of_int (rne (v * 10 ^ ndigits)) / 10 ^ ndigits)"
| "py_round v ndigits = v"

text \<open>
  The generator: the stream of the values that \<open>random.random()\<close> will return, each
  a double from 0 (included) to 1 (excluded). \<open>random.uniform(a, b)\<close> is
  \<open>a + (b - a) * random()\<close> and consumes one value; the program calls it with
  integer bounds.
\<close>

type_synonym rng = "nat \<Rightarrow> real"

definition random_uniform :: "int \<Rightarrow> int \<Rightarrow> rng \<Rightarrow> fval \<times> rng" where
  "random_uniform a b g =
     (fadd (Finite (of_int a)) (fmul (Finite (of_int (b - a))) (Finite (g 0))),
      \<lambda>i. g (Suc i))"

subsection \<open>Entities\<close>

record entity =
  x :: fval
  y :: fval
  speed :: fval
  name :: string

record bird = entity +
  catch_radius :: fval

definition Worm :: "fval \<Rightarrow> fval \<Rightarrow> fval \<Rightarrow> entity" where
  "Worm x0 y0 speed0 = \<lparr>x = x0, y = y0, speed = speed0, name = ''Worm''\<rparr>"

definition Bird :: "fval \<Rightarrow> fval \<Rightarrow> fval \<Rightarrow> fval \<Rightarrow> bird" where
  "Bird x0 y0 speed0 catch_radius0 =
     \<lparr>x = x0, y = y0, speed = speed0, name = ''Bird'', catch_radius = catch_radius0\<rparr>"

text \<open>
  \<open>math.sqrt(dx ** 2 + dy ** 2)\<close>, the expression of both \<open>distance_to\<close> and
  \<open>move_towards\<close>, evaluated left to right.
\<close>

definition norm2 :: "fval \<Rightarrow> fval \<Rightarrow> py_error + fval" where
  "norm2 dx dy =
     (case py_pow2 dx of
        Inl e \<Rightarrow> Inl e
      | Inr dx2 \<Rightarrow>
          (case py_pow2 dy of
             Inl e \<Rightarrow> Inl e
           | Inr dy2 \<Rightarrow> math_sqrt (fadd dx2 dy2)))"

definition distance_to :: "'a entity_scheme \<Rightarrow> fval \<Rightarrow> fval \<Rightarrow> py_error + fval" where
  "distance_to self target_x target_y =
     norm2 (fsub target_x (x self)) (fsub target_y (y self))"

text \<open>
  \<open>move_towards\<close> mutates the entity; the model returns the entity after the call, or
  the exception that leaves it as it was.
\<close>

definition move_towards ::
  "'a entity_scheme \<Rightarrow> fval \<Rightarrow> fval \<Rightarrow> fval \<Rightarrow> py_error + 'a entity_scheme" where
  "move_towards self target_x target_y delta_time =
     (let dx = fsub target_x (x self);
          dy = fsub target_y (y self)
      in case norm2 dx dy of
           Inl e \<Rightarrow> Inl e
         | Inr distance \<Rightarrow>
             if distance = Finite 0 then Inr self
             else case truediv dx distance of
                    Inl e \<Rightarrow> Inl e
                  | Inr ux \<Rightarrow>
                      (case truediv dy distance of
                         Inl e \<Rightarrow> Inl e
                       | Inr uy \<Rightarrow>
                           (let max_movement = fmul (speed self) delta_time
                            in if flt distance max_movement
                               then Inr (self\<lparr>x := target_x, y := target_y\<rparr>)
                               else Inr (self\<lparr>x := fadd (x self) (fmul ux max_movement),
                                              y := fadd (y self) (fmul uy max_movement)\<rparr>))))"

definition hunt :: "bird \<Rightarrow> 'a entity_scheme \<Rightarrow> fval \<Rightarrow> py_error + bird" where
  "hunt self worm delta_time = move_towards self (x worm) (y worm) delta_time"

definition seek_safety :: "entity \<Rightarrow> fval \<times> fval \<Rightarrow> fval \<Rightarrow> py_error + entity" where
  "seek_safety self safe_zone_pos delta_time =
     move_towards self (fst safe_zone_pos) (snd safe_zone_pos) delta_time"

subsection \<open>One trial\<close>

text \<open>
  The module-level globals that \<open>adjust_parameters\<close> sets: whatever \<open>float\<close>
  parses, infinities and NaN included.
\<close>

record config =
  FIELD_SIZE :: fval
  SAFE_ZONE_POS :: "fval \<times> fval"
  BIRD_SPEED :: fval
  CATCH_RADIUS :: fval
  WORM_SPEED :: fval
  STEP_TIME :: fval

text \<open>The dictionary that \<open>run_simulation\<close> returns.\<close>

record result =
  attempt_id :: int
  outcome :: string
  time_s :: fval
  worm_x :: fval
  worm_y :: fval

definition make_result :: "int \<Rightarrow> string \<Rightarrow> fval \<Rightarrow> entity \<Rightarrow> result" where
  "make_result attempt kind time_elapsed worm =
     \<lparr>attempt_id = attempt, outcome = kind, time_s = py_round time_elapsed 2,
      worm_x = py_round (x worm) 2, worm_y = py_round (y worm) 2\<rparr>"

text \<open>\<open>FIELD_SIZE / WORM_SPEED / STEP_TIME * 2\<close>, evaluated left to right.\<close>

definition step_quotient :: "config \<Rightarrow> py_error + fval" where
  "step_quotient cfg =
     (case truediv (FIELD_SIZE cfg) (WORM_SPEED cfg) of
        Inl e \<Rightarrow> Inl e
      | Inr q \<Rightarrow>
          (case truediv q (STEP_TIME cfg) of
             Inl e \<Rightarrow> Inl e
           | Inr q' \<Rightarrow> Inr (fmul q' (Finite 2))))"

text \<open>\<open>max_steps = int(FIELD_SIZE / WORM_SPEED / STEP_TIME * 2)\<close>.\<close>

definition max_steps :: "config \<Rightarrow> py_error + int" where
  "max_steps cfg = (case step_quotient cfg of Inl e \<Rightarrow> Inl e | Inr q \<Rightarrow> py_int q)"

text \<open>The two moves of a loop iteration: the bird hunts, then the worm seeks safety.\<close>

definition tick_moves :: "config \<Rightarrow> bird \<Rightarrow> entity \<Rightarrow> py_error + bird \<times> entity" where
  "tick_moves cfg b w =
     (case hunt b w (STEP_TIME cfg) of
        Inl e \<Rightarrow> Inl e
      | Inr b' \<Rightarrow>
          (case seek_safety w (SAFE_ZONE_POS cfg) (STEP_TIME cfg) of
             Inl e \<Rightarrow> Inl e
           | Inr w' \<Rightarrow> Inr (b', w')))"

text \<open>
  The two distances and the outcome checks of a loop iteration, on the entities after
  both moves: the string of the record returned at this iteration, or \<open>None\<close> when
  the loop goes on.
\<close>

definition tick_outcome :: "config \<Rightarrow> bird \<Rightarrow> entity \<Rightarrow> py_error + string option" where
  "tick_outcome cfg b w =
     (case distance_to b (x w) (y w) of
        Inl e \<Rightarrow> Inl e
      | Inr bird_worm_dist \<Rightarrow>
          (case distance_to w (fst (SAFE_ZONE_POS cfg)) (snd (SAFE_ZONE_POS cfg)) of
             Inl e \<Rightarrow> Inl e
           | Inr worm_safe_dist \<Rightarrow>
               if fle bird_worm_dist (CATCH_RADIUS cfg) then Inr (Some ''Caught'')
               else case truediv (CATCH_RADIUS cfg) (Finite 2) of
                      Inl e \<Rightarrow> Inl e
                    | Inr half \<Rightarrow>
                        if fle worm_safe_dist half then Inr (Some ''Safe'') else Inr None))"

text \<open>
  How the loop of \<open>run_simulation\<close> is left: the outcome, the accumulated time, both
  entities, and the number of iterations that were run.
\<close>

record trial_end =
  end_outcome :: string
  end_time :: fval
  end_bird :: bird
  end_worm :: entity
  end_steps :: nat

text \<open>
  \<open>for step in range(max_steps)\<close>: \<open>n\<close> iterations remain and \<open>step\<close>
  have been run.
\<close>

fun sim_loop :: "config \<Rightarrow> nat \<Rightarrow> nat \<Rightarrow> bird \<Rightarrow> entity \<Rightarrow> fval \<Rightarrow> py_error + trial_end" where
  "sim_loop cfg 0 step b w time_elapsed =
     Inr \<lparr>end_outcome = ''Timeout'', end_time = time_elapsed, end_bird = b, end_worm = w,
          end_steps = step\<rparr>"
| "sim_loop cfg (Suc n) step b w time_elapsed =
     (case tick_moves cfg b w of
        Inl e \<Rightarrow> Inl e
      | Inr (b', w') \<Rightarrow>
          (case tick_outcome cfg b' w' of
             Inl e \<Rightarrow> Inl e
           | Inr found \<Rightarrow>
               (let time_elapsed' = fadd time_elapsed (STEP_TIME cfg)
                in case found of
                     Some kind \<Rightarrow>
                       Inr \<lparr>end_outcome = kind, end_time = time_elapsed', end_bird = b',
                            end_worm = w', end_steps = Suc step\<rparr>
                   | None \<Rightarrow> sim_loop cfg n (Suc step) b' w' time_elapsed')))"

text \<open>
  The start of a trial: four draws place the worm and then the bird. The step limit is
  computed after them.
\<close>

definition start_trial :: "config \<Rightarrow> rng \<Rightarrow> (bird \<times> entity) \<times> rng" where
  "start_trial cfg g =
     (let (worm_start_x, g1) = random_uniform 0 10 g;
          (worm_start_y, g2) = random_uniform 0 10 g1;
          worm = Worm worm_start_x worm_start_y (WORM_SPEED cfg);
          (off_x, g3) = random_uniform (- 5) 5 g2;
          (off_y, g4) = random_uniform (- 5) 5 g3;
          b = Bird (fadd (x worm) off_x) (fadd (y worm) off_y) (BIRD_SPEED cfg)
                (CATCH_RADIUS cfg)
      in ((b, worm), g4))"

definition run_trial :: "config \<Rightarrow> rng \<Rightarrow> py_error + trial_end" where
  "run_trial cfg g =
     (let ((b, worm), g') = start_trial cfg g
      in case max_steps cfg of
           Inl e \<Rightarrow> Inl e
         | Inr limit \<Rightarrow> sim_loop cfg (nat limit) 0 b worm (Finite 0))"

definition run_simulation :: "config \<Rightarrow> rng \<Rightarrow> int \<Rightarrow> py_error + result \<times> rng" where
  "run_simulation cfg g attempt =
     (case run_trial cfg g of
        Inl e \<Rightarrow> Inl e
      | Inr fin \<Rightarrow>
          Inr (make_result attempt (end_outcome fin) (end_time fin) (end_worm fin),
               snd (start_trial cfg g)))"

subsection \<open>The batch\<close>

text \<open>\<open>for i in range(1, num_trials + 1)\<close>: \<open>n\<close> trials remain, the next is \<open>i\<close>.\<close>

fun trials_loop ::
  "config \<Rightarrow> nat \<Rightarrow> int \<Rightarrow> rng \<Rightarrow> result list \<Rightarrow> py_error + result list \<times> rng" where
  "trials_loop cfg 0 i g acc = Inr (acc, g)"
| "trials_loop cfg (Suc n) i g acc =
     (case run_simulation cfg g i of
        Inl e \<Rightarrow> Inl e
      | Inr (r, g') \<Rightarrow> trials_loop cfg n (i + 1) g' (acc @ [r]))"

text \<open>
  The operator \<open>/\<close> on two integers: the rounded quotient; a quotient too large
  for a float raises.
\<close>

definition int_truediv :: "int \<Rightarrow> int \<Rightarrow> py_error + fval" where
  "int_truediv a b =
     (if b = 0 then Inl ZeroDivisionError
      else case fl (of_int a / of_int b) of
             Finite q \<Rightarrow> Inr (Finite q)
           | _ \<Rightarrow> Inl OverflowError)"

text \<open>
  The average escape time: \<open>None\<close> when the line is not printed, the printed quotient
  otherwise. The builtin \<open>sum\<close> adds the floats of a list in an order and with a
  compensation that depend on the interpreter's version; it is the parameter
  \<open>py_sum\<close>, and nothing below depends on how it rounds. The length of the list
  converts to a float exactly.
\<close>

definition average_escape_time ::
  "(fval list \<Rightarrow> fval) \<Rightarrow> result list \<Rightarrow> py_error + fval option" where
  "average_escape_time py_sum rs =
     (let safe_times = map time_s (filter (\<lambda>r. outcome r = ''Safe'') rs)
      in if safe_times \<noteq> []
         then (case truediv (py_sum safe_times) (Finite (real (length safe_times))) of
                 Inl e \<Rightarrow> Inl e
               | Inr avg \<Rightarrow> Inr (Some avg))
         else Inr None)"

text \<open>What \<open>run_trials\<close> prints and writes: the numbers behind the summary lines.\<close>

record report =
  records :: "result list"
  safe_count :: nat
  safe_share :: fval
  caught_count :: nat
  caught_share :: fval
  timeouts :: int
  average_time :: "fval option"
  detailed :: "result list"

definition run_trials ::
  "(fval list \<Rightarrow> fval) \<Rightarrow> config \<Rightarrow> rng \<Rightarrow> int \<Rightarrow> py_error + report" where
  "run_trials py_sum cfg g num_trials =
     (case trials_loop cfg (nat num_trials) 1 g [] of
        Inl e \<Rightarrow> Inl e
      | Inr (rs, g') \<Rightarrow>
          (let safe_n = length (filter (\<lambda>r. outcome r = ''Safe'') rs);
               caught_n = length (filter (\<lambda>r. outcome r = ''Caught'') rs)
           in case int_truediv (int safe_n) num_trials of
                Inl e \<Rightarrow> Inl e
              | Inr safe_part \<Rightarrow>
                  (case int_truediv (int caught_n) num_trials of
                     Inl e \<Rightarrow> Inl e
                   | Inr caught_part \<Rightarrow>
                       (case average_escape_time py_sum rs of
                          Inl e \<Rightarrow> Inl e
                        | Inr avg \<Rightarrow>
                            Inr \<lparr>records = rs, safe_count = safe_n, safe_share = safe_part,
                                 caught_count = caught_n, caught_share = caught_part,
                                 timeouts = num_trials - int safe_n - int caught_n,
                                 average_time = avg, detailed = take 5 rs\<rparr>))))"


subsection \<open>Notions for the statements\<close>





subsection \<open>Concrete runs\<close>

text \<open>
  A generator whose first four values put the worm at (5, 5) and the bird at (0, 5):
  \<open>uniform(0, 10)\<close> gives 5 twice, \<open>uniform(-5, 5)\<close> gives -5 and then 0.
\<close>

definition example_rng :: rng where
  "example_rng = (\<lambda>i. if i = 2 then 0 else 1 / 2)"

text \<open>The builtin \<open>sum\<close> as a plain addition from left to right, starting at 0.\<close>

definition sum_left :: "fval list \<Rightarrow> fval" where
  "sum_left vs = foldl fadd (Finite 0) vs"

text \<open>
  A configuration whose step limit is 2 and whose safe zone and bird stay far from the
  worm: field size 1/256, safe zone (50, 5), both speeds 1, catch radius 1, step time
  1/256.
\<close>

definition timeout_config :: config where
  "timeout_config =
     \<lparr>FIELD_SIZE = Finite (1 / 256), SAFE_ZONE_POS = (Finite 50, Finite 5),
      BIRD_SPEED = Finite 1, CATCH_RADIUS = Finite 1, WORM_SPEED = Finite 1,
      STEP_TIME = Finite (1 / 256)\<rparr>"

text \<open>
  A configuration with the safe zone on the worm's start and a step limit of 1: field
  size 1/2, safe zone (5, 5), catch radius 1, worm speed 1, step time 1, and the bird
  speed given.
\<close>

definition safe_config :: "real \<Rightarrow> config" where
  "safe_config bird_speed =
     \<lparr>FIELD_SIZE = Finite (1 / 2), SAFE_ZONE_POS = (Finite 5, Finite 5),
      BIRD_SPEED = Finite bird_speed, CATCH_RADIUS = Finite 1, WORM_SPEED = Finite 1,
      STEP_TIME = Finite 1\<rparr>"

section \<open>Rounding to the nearest double\<close>

lemma rne_of_int: "rne (of_int n) = n"
  by (simp add: rne_def)

lemma rne_zero: "rne 0 = 0"
  by (simp add: rne_def)

lemma fl_zero: "fl 0 = Finite 0"
  by (simp add: fl_def)

lemma expo_eqI:
  assumes "(2::real) powr of_int e \<le> \<bar>v\<bar>" and "\<bar>v\<bar> < (2::real) powr (of_int e + 1)"
    and "- 1022 \<le> e"
  shows "expo v = e"
proof -
  have pos: "0 < \<bar>v\<bar>"
    using assms(1) by (smt (verit) powr_gt_zero)
  have "of_int e \<le> log 2 \<bar>v\<bar>"
    using assms(1) pos by (simp add: le_log_iff)
  moreover have "log 2 \<bar>v\<bar> < of_int e + 1"
    using assms(2) pos by (simp add: log_less_iff)
  ultimately have "\<lfloor>log 2 \<bar>v\<bar>\<rfloor> = e"
    by linarith
  then show ?thesis
    using assms(3) by (simp add: expo_def)
qed

lemma two_powr_numerals:
  "(2::real) powr 53 = 2 ^ 53" "(2::real) powr 1024 = 2 ^ 1024"
  by simp_all

text \<open>A real in the range of the normal doubles rounds to a multiple of its \<open>ulp\<close>.\<close>

lemma fl_eqI:
  assumes "(2::real) powr of_int e \<le> \<bar>v\<bar>" and "\<bar>v\<bar> < (2::real) powr (of_int e + 1)"
    and "- 1022 \<le> e" and "e \<le> 1022"
    and "rne (v / (2::real) powr of_int (e - 52)) = n"
  shows "fl v = Finite (of_int n * (2::real) powr of_int (e - 52))"
proof -
  have ex: "expo v = e"
    using assms(1-3) by (rule expo_eqI)
  have nz: "v \<noteq> 0"
    using assms(1) by (smt (verit) powr_gt_zero)
  define u :: real where "u = 2 powr of_int (e - 52)"
  have upos: "0 < u" by (simp add: u_def)
  define q where "q = v / u"
  have n: "rne q = n" using assms(5) by (simp add: q_def u_def)
  have "2 powr (of_int e + 1) / u = (2::real) powr 53"
    by (simp add: u_def flip: powr_diff)
  then have top: "2 powr (of_int e + 1) = (2::real) powr 53 * u"
    using upos by (simp add: field_simps)
  have "\<bar>q\<bar> = \<bar>v\<bar> / u" using upos by (simp add: q_def)
  also have "\<dots> < 2 powr (of_int e + 1) / u"
    using assms(2) upos by (simp add: divide_strict_right_mono)
  also have "\<dots> = 2 ^ 53"
    using top upos two_powr_numerals(1) by simp
  finally have qb: "\<bar>q\<bar> < 2 ^ 53" .
  have fq: "\<lfloor>q\<rfloor> \<le> n \<and> n \<le> \<lfloor>q\<rfloor> + 1"
    using n by (auto simp add: rne_def Let_def split: if_splits)
  have "- (2 ^ 53) < q" "q < 2 ^ 53"
    using qb by (simp_all add: abs_less_iff)
  then have "- (2 ^ 53) \<le> n \<and> n \<le> 2 ^ 53"
    using fq by simp linarith
  then have "- (2 ^ 53) \<le> (of_int n :: real) \<and> (of_int n :: real) \<le> 2 ^ 53"
    by (metis of_int_le_iff of_int_numeral of_int_power of_int_minus)
  then have nb: "\<bar>of_int n :: real\<bar> \<le> 2 powr 53"
    by (simp add: abs_le_iff)
  have "\<bar>of_int n * u\<bar> \<le> 2 powr 53 * u"
    using nb upos by (simp add: abs_mult)
  also have "\<dots> = 2 powr (of_int e + 1)"
    using top by simp
  also have "\<dots> \<le> 2 powr 1023"
    by (rule powr_mono) (use assms(4) in simp_all)
  also have "\<dots> < (2::real) powr 1024"
    by (rule powr_less_mono) simp_all
  finally have small: "\<bar>of_int n * u\<bar> < 2 ^ 1024"
    using two_powr_numerals(2) by simp
  have "fl v = Finite (of_int (rne (v / u)) * u)"
    using nz small n unfolding fl_def ulp_def ex Let_def q_def u_def [symmetric]
    by (auto simp add: abs_less_iff)
  then show ?thesis
    using n by (simp add: q_def u_def)
qed

text \<open>
  The same with the mantissa made explicit: when \<open>v * 2 ^ k\<close> lies between
  \<open>2 ^ 52\<close> and \<open>2 ^ 53\<close>, the double nearest to \<open>v\<close> is the nearest multiple
  of \<open>1 / 2 ^ k\<close>.
\<close>

lemma fl_scaled:
  assumes k: "k \<le> 1074" and lo: "2 ^ 52 \<le> \<bar>v * 2 ^ k\<bar>" and hi: "\<bar>v * 2 ^ k\<bar> < 2 ^ 53"
    and n: "rne (v * 2 ^ k) = n"
  shows "fl v = Finite (of_int n / 2 ^ k)"
proof -
  define e where "e = 52 - int k"
  have pw: "(2::real) powr of_int (e - 52) = 1 / 2 ^ k"
    by (simp add: e_def powr_minus powr_realpow inverse_eq_divide)
  have p1: "(2::real) powr of_int e = 2 ^ 52 / 2 ^ k"
    by (simp add: e_def powr_diff powr_realpow)
  have p2: "(2::real) powr (of_int e + 1) = 2 ^ 53 / 2 ^ k"
    by (simp add: e_def powr_diff powr_realpow)
  have abs: "\<bar>v * 2 ^ k\<bar> = \<bar>v\<bar> * 2 ^ k"
    by (simp add: abs_mult)
  have a1: "(2::real) powr of_int e \<le> \<bar>v\<bar>"
    using lo unfolding p1 abs by (simp add: field_simps)
  have a2: "\<bar>v\<bar> < (2::real) powr (of_int e + 1)"
    using hi unfolding p2 abs by (simp add: field_simps)
  have a3: "- 1022 \<le> e" "e \<le> 1022"
    using k by (simp_all add: e_def)
  have a5: "rne (v / (2::real) powr of_int (e - 52)) = n"
    unfolding pw using n by simp
  show ?thesis
    using fl_eqI [OF a1 a2 a3 a5] unfolding pw by simp
qed

text \<open>A real that a double represents rounds to itself.\<close>

lemma fl_dyadic:
  assumes m: "\<bar>m\<bar> < 2 ^ 53" and k: "k \<le> 1074"
  shows "fl (of_int m / 2 ^ k) = Finite (of_int m / 2 ^ k)"
proof (cases "m = 0")
  case True
  then show ?thesis by (simp add: fl_def)
next
  case False
  define v :: real where "v = of_int m / 2 ^ k"
  have nz: "v \<noteq> 0"
    using False by (simp add: v_def)
  have mb: "\<bar>of_int m :: real\<bar> < 2 ^ 53"
    using m by (metis of_int_abs of_int_less_iff of_int_numeral of_int_power)
  have vb: "\<bar>v\<bar> < 2 ^ 53 / 2 ^ k"
    using mb by (simp add: v_def divide_strict_right_mono)
  have "2 ^ 53 / 2 ^ k = (2::real) powr (53 - real k)"
    by (simp add: powr_diff powr_realpow)
  then have "\<bar>v\<bar> < 2 powr (53 - real k)"
    using vb by simp
  then have "log 2 \<bar>v\<bar> < 53 - real k"
    using nz by (simp add: log_less_iff)
  then have L: "\<lfloor>log 2 \<bar>v\<bar>\<rfloor> \<le> 52 - int k"
    by linarith
  define E where "E = expo v - 52"
  have E: "E \<le> - int k"
    using L k by (simp add: E_def expo_def)
  define j where "j = nat (- int k - E)"
  have j: "int j = - int k - E"
    using E by (simp add: j_def)
  have up: "ulp v = 2 powr of_int E"
    by (simp add: ulp_def E_def)
  have "(2::real) powr of_int E * 2 ^ j = 2 powr (of_int E + of_int (int j))"
    by (simp add: powr_add powr_realpow)
  also have "\<dots> = 2 powr (- real k)"
    using j by simp
  also have "\<dots> = 1 / 2 ^ k"
    by (simp add: powr_minus powr_realpow inverse_eq_divide)
  finally have rel: "ulp v * 2 ^ j = 1 / 2 ^ k"
    by (simp add: up)
  have upos: "0 < ulp v"
    by (simp add: up)
  have q: "v / ulp v = of_int (m * 2 ^ j)"
  proof -
    have "v = of_int m * (ulp v * 2 ^ j)"
      unfolding rel by (simp add: v_def)
    then have "v / ulp v = of_int m * 2 ^ j"
      using upos by (simp add: field_simps)
    then show ?thesis by simp
  qed
  have r: "of_int (rne (v / ulp v)) * ulp v = v"
    unfolding q rne_of_int using q upos by (simp add: field_simps)
  have "\<bar>v\<bar> < 2 ^ 53"
    using mb by (simp add: v_def field_simps)
       (smt (verit) mult_left_le one_le_numeral one_le_power zero_less_power)
  also have "(2::real) ^ 53 \<le> 2 ^ 1024"
    by (rule power_increasing) simp_all
  finally have small: "\<bar>v\<bar> < 2 ^ 1024" .
  have "fl v = Finite v"
    using nz small unfolding fl_def Let_def r by (auto simp add: abs_less_iff)
  then show ?thesis
    by (simp add: v_def)
qed

text \<open>
  For evaluation: a real below \<open>2 ^ 33\<close> in absolute value that is a multiple of
  \<open>1 / 2 ^ 20\<close> is a double.
\<close>

lemma fl_exact:
  assumes "v * 2 ^ 20 \<in> \<int>" and "\<bar>v\<bar> < 2 ^ 33"
  shows "fl v = Finite v"
proof -
  obtain m :: int where m: "v * 2 ^ 20 = of_int m"
    using assms(1) by (auto elim: Ints_cases)
  then have v: "v = of_int m / 2 ^ 20"
    by (simp add: field_simps)
  have "\<bar>of_int m :: real\<bar> = \<bar>v\<bar> * 2 ^ 20"
    using m by (simp add: abs_mult flip: m)
  also have "\<dots> < 2 ^ 33 * 2 ^ 20"
    using assms(2) by simp
  also have "\<dots> = 2 ^ 53"
    by simp
  finally have "\<bar>m\<bar> < 2 ^ 53"
    by (metis of_int_abs of_int_less_iff of_int_numeral of_int_power)
  then show ?thesis
    unfolding v by (rule fl_dyadic) simp
qed



section \<open>Moving toward a target\<close>

lemma truediv_ok: "b \<noteq> Finite 0 \<Longrightarrow> \<exists>q. truediv a b = Inr q"
  by (cases a; cases b) simp_all

lemma truediv_error: "truediv a b = Inl e \<Longrightarrow> e = ZeroDivisionError \<and> b = Finite 0"
  by (cases a; cases b) (simp_all split: if_splits)

lemma py_pow2_error: "py_pow2 v = Inl e \<Longrightarrow> e = OverflowError"
  by (cases v) (simp_all split: fval.splits)

lemma math_sqrt_error: "math_sqrt v = Inl e \<Longrightarrow> e = ValueError"
  by (cases v) (simp_all split: if_splits)

lemma norm2_error: "norm2 dx dy = Inl e \<Longrightarrow> e = OverflowError \<or> e = ValueError"
  by (auto simp add: norm2_def split: sum.splits dest: py_pow2_error math_sqrt_error)



text \<open>
  Claim C5. When the computed distance from the entity to the target is zero,
  \<open>move_towards\<close> returns the entity unchanged; and whatever the entity, the target
  and the step duration are, \<open>move_towards\<close> never raises \<open>ZeroDivisionError\<close>:
  neither of its divisions by the distance has a zero divisor.
\<close>

theorem move_towards_zero_distance:
  "(distance_to self tx ty = Inr (Finite 0) \<longrightarrow> move_towards self tx ty dt = Inr self) \<and>
   move_towards self tx ty dt \<noteq> Inl ZeroDivisionError"
proof
  show "distance_to self tx ty = Inr (Finite 0) \<longrightarrow> move_towards self tx ty dt = Inr self"
    by (simp add: move_towards_def distance_to_def Let_def)
  show "move_towards self tx ty dt \<noteq> Inl ZeroDivisionError"
  proof
    assume err: "move_towards self tx ty dt = Inl ZeroDivisionError"
    show False
    proof (cases "norm2 (fsub tx (x self)) (fsub ty (y self))")
      case (Inl e)
      then show False
        using err norm2_error [OF Inl] by (simp add: move_towards_def Let_def)
    next
      case (Inr d)
      show False
      proof (cases "d = Finite 0")
        case True
        then show False
          using err Inr by (simp add: move_towards_def Let_def)
      next
        case False
        obtain ux uy where "truediv (fsub tx (x self)) d = Inr ux"
          "truediv (fsub ty (y self)) d = Inr uy"
          using truediv_ok [OF False] by blast
        then show False
          using err Inr False by (simp add: move_towards_def Let_def split: if_splits)
      qed
    qed
  qed
qed

text \<open>
  Claim C3, amended. When the computed distance to the target is not zero and is strictly
  less than the travel distance of the step, \<open>speed * delta_time\<close>, the entity ends
  exactly at the target.
\<close>

theorem move_towards_reaches_target:
  assumes "distance_to self tx ty = Inr d" and "d \<noteq> Finite 0"
    and "flt d (fmul (speed self) dt)"
  shows "move_towards self tx ty dt = Inr (self\<lparr>x := tx, y := ty\<rparr>)"
proof -
  obtain ux uy where "truediv (fsub tx (x self)) d = Inr ux"
    "truediv (fsub ty (y self)) d = Inr uy"
    using truediv_ok [OF assms(2)] by blast
  then show ?thesis
    using assms by (simp add: move_towards_def distance_to_def Let_def)
qed



section \<open>One tick of a trial\<close>






text \<open>
  Claim C6. In every iteration of the loop of \<open>run_simulation\<close> the bird moves first,
  toward the position the worm has before the iteration; then the worm moves toward the
  safe zone; both moves use the step duration \<open>STEP_TIME\<close>; an exception of the
  first move leaves the worm unmoved; and the iteration goes on with the two moved
  entities.
\<close>

theorem bird_moves_before_worm:
  "tick_moves cfg b w =
     (case move_towards b (x w) (y w) (STEP_TIME cfg) of
        Inl e \<Rightarrow> Inl e
      | Inr b' \<Rightarrow>
          (case move_towards w (fst (SAFE_ZONE_POS cfg)) (snd (SAFE_ZONE_POS cfg))
                  (STEP_TIME cfg) of
             Inl e \<Rightarrow> Inl e
           | Inr w' \<Rightarrow> Inr (b', w'))) \<and>
   (\<forall>b' w' n step t.
      move_towards b (x w) (y w) (STEP_TIME cfg) = Inr b' \<and>
      move_towards w (fst (SAFE_ZONE_POS cfg)) (snd (SAFE_ZONE_POS cfg)) (STEP_TIME cfg) = Inr w'
      \<longrightarrow>
      tick_moves cfg b w = Inr (b', w') \<and>
      sim_loop cfg (Suc n) step b w t =
        (case tick_outcome cfg b' w' of
           Inl e \<Rightarrow> Inl e
         | Inr None \<Rightarrow> sim_loop cfg n (Suc step) b' w' (fadd t (STEP_TIME cfg))
         | Inr (Some kind) \<Rightarrow>
             Inr \<lparr>end_outcome = kind, end_time = fadd t (STEP_TIME cfg), end_bird = b',
                  end_worm = w', end_steps = Suc step\<rparr>))"
  by (auto simp add: tick_moves_def hunt_def seek_safety_def Let_def
      split: sum.splits option.splits)


section \<open>The step limit\<close>

lemma run_trial_eq:
  "run_trial cfg g =
     (case max_steps cfg of
        Inl e \<Rightarrow> Inl e
      | Inr limit \<Rightarrow>
          sim_loop cfg (nat limit) 0 (fst (fst (start_trial cfg g)))
            (snd (fst (start_trial cfg g))) (Finite 0))"
  by (cases "max_steps cfg") (auto simp add: run_trial_def split: prod.splits)

lemma py_round_zero: "py_round (Finite 0) 2 = Finite 0"
  by (simp add: rne_zero fl_zero)

lemma py_int_zero: "py_int v = Inr 0 \<longleftrightarrow> (\<exists>q. v = Finite q \<and> - 1 < q \<and> q < 1)"
proof (cases v)
  case (Finite q)
  have "(if 0 \<le> q then \<lfloor>q\<rfloor> else \<lceil>q\<rceil>) = 0 \<longleftrightarrow> - 1 < q \<and> q < 1"
    by (auto simp add: floor_eq_iff ceiling_eq_iff)
  then show ?thesis
    using Finite by simp
qed simp_all



text \<open>
  Claim C10, amended. When the step limit is 0, the loop runs no iteration: the trial ends
  with outcome Timeout, time 0, zero steps, and the bird and the worm as they were
  created; the record carries time 0 and the worm's rounded start position. The limit is
  0 exactly when the quotient \<open>FIELD_SIZE / WORM_SPEED / STEP_TIME * 2\<close>, as the
  doubles give it, is finite and strictly between -1 and 1.
\<close>

theorem zero_step_cap:
  "(max_steps cfg = Inr 0 \<longrightarrow>
      run_trial cfg g =
        Inr \<lparr>end_outcome = ''Timeout'', end_time = Finite 0,
             end_bird = fst (fst (start_trial cfg g)),
             end_worm = snd (fst (start_trial cfg g)), end_steps = 0\<rparr> \<and>
      run_simulation cfg g attempt =
        Inr (\<lparr>attempt_id = attempt, outcome = ''Timeout'', time_s = Finite 0,
              worm_x = py_round (fst (random_uniform 0 10 g)) 2,
              worm_y = py_round (fst (random_uniform 0 10 (snd (random_uniform 0 10 g)))) 2\<rparr>,
             snd (start_trial cfg g))) \<and>
   (max_steps cfg = Inr 0 \<longleftrightarrow>
      (\<exists>q. step_quotient cfg = Inr (Finite q) \<and> - 1 < q \<and> q < 1))"
proof (intro conjI impI)
  assume zero: "max_steps cfg = Inr 0"
  show run: "run_trial cfg g =
        Inr \<lparr>end_outcome = ''Timeout'', end_time = Finite 0,
             end_bird = fst (fst (start_trial cfg g)),
             end_worm = snd (fst (start_trial cfg g)), end_steps = 0\<rparr>"
    using zero by (simp add: run_trial_eq)
  have worm: "snd (fst (start_trial cfg g)) =
      Worm (fst (random_uniform 0 10 g)) (fst (random_uniform 0 10 (snd (random_uniform 0 10 g))))
        (WORM_SPEED cfg)"
    by (simp add: start_trial_def Let_def split: prod.splits)
  show "run_simulation cfg g attempt =
        Inr (\<lparr>attempt_id = attempt, outcome = ''Timeout'', time_s = Finite 0,
              worm_x = py_round (fst (random_uniform 0 10 g)) 2,
              worm_y = py_round (fst (random_uniform 0 10 (snd (random_uniform 0 10 g)))) 2\<rparr>,
             snd (start_trial cfg g))"
    by (simp add: run_simulation_def run make_result_def rne_zero fl_zero worm Worm_def)
next
  show "max_steps cfg = Inr 0 \<longleftrightarrow>
      (\<exists>q. step_quotient cfg = Inr (Finite q) \<and> - 1 < q \<and> q < 1)"
    by (cases "step_quotient cfg") (simp_all add: max_steps_def py_int_zero)
qed

section \<open>The batch of trials\<close>






lemma average_escape_time_eq:
  "average_escape_time py_sum rs =
     (if filter (\<lambda>r. outcome r = ''Safe'') rs = [] then Inr None
      else case truediv (py_sum (map time_s (filter (\<lambda>r. outcome r = ''Safe'') rs)))
                  (Finite (real (length (filter (\<lambda>r. outcome r = ''Safe'') rs)))) of
             Inl e \<Rightarrow> Inl e
           | Inr avg \<Rightarrow> Inr (Some avg))"
  by (simp add: average_escape_time_def Let_def)

lemma average_escape_time_ok: "\<exists>avg. average_escape_time py_sum rs = Inr avg"
proof (cases "filter (\<lambda>r. outcome r = ''Safe'') rs = []")
  case True
  then show ?thesis by (simp add: average_escape_time_eq)
next
  case False
  then have "Finite (real (length (filter (\<lambda>r. outcome r = ''Safe'') rs))) \<noteq> Finite 0"
    by simp
  from truediv_ok [OF this]
  obtain avg where "truediv (py_sum (map time_s (filter (\<lambda>r. outcome r = ''Safe'') rs)))
      (Finite (real (length (filter (\<lambda>r. outcome r = ''Safe'') rs)))) = Inr avg"
    by blast
  then show ?thesis
    using False by (simp add: average_escape_time_eq)
qed

lemma run_trials_average:
  "run_trials py_sum cfg g num_trials = Inr rep \<Longrightarrow>
   Inr (average_time rep) = average_escape_time py_sum (records rep)"
  by (auto simp add: run_trials_def Let_def split: sum.splits prod.splits)








text \<open>
  Claim C9. The average is taken over the times of the Safe records only: it is absent
  exactly when no record is Safe, it is the sum of the Safe times divided by their number
  otherwise, its computation never raises, \<open>ZeroDivisionError\<close> included, and it is
  the average that a report of \<open>run_trials\<close> carries.
\<close>

theorem average_over_safe_only:
  "(\<forall>e. average_escape_time py_sum rs \<noteq> Inl e) \<and>
   (average_escape_time py_sum rs = Inr None \<longleftrightarrow> filter (\<lambda>r. outcome r = ''Safe'') rs = []) \<and>
   (filter (\<lambda>r. outcome r = ''Safe'') rs \<noteq> [] \<longrightarrow>
      (\<exists>avg. truediv (py_sum (map time_s (filter (\<lambda>r. outcome r = ''Safe'') rs)))
                (Finite (real (length (filter (\<lambda>r. outcome r = ''Safe'') rs)))) = Inr avg \<and>
             average_escape_time py_sum rs = Inr (Some avg))) \<and>
   (\<forall>cfg g num_trials rep. run_trials py_sum cfg g num_trials = Inr rep \<longrightarrow>
      Inr (average_time rep) = average_escape_time py_sum (records rep))"
proof (intro conjI allI impI)
  fix e
  show "average_escape_time py_sum rs \<noteq> Inl e"
    using average_escape_time_ok [of py_sum rs] by auto
next
  obtain avg where "average_escape_time py_sum rs = Inr avg"
    using average_escape_time_ok by blast
  then show "average_escape_time py_sum rs = Inr None
      \<longleftrightarrow> filter (\<lambda>r. outcome r = ''Safe'') rs = []"
    by (auto simp add: average_escape_time_eq split: if_splits sum.splits)
next
  assume some: "filter (\<lambda>r. outcome r = ''Safe'') rs \<noteq> []"
  obtain avg where "average_escape_time py_sum rs = Inr avg"
    using average_escape_time_ok by blast
  then show "\<exists>avg. truediv (py_sum (map time_s (filter (\<lambda>r. outcome r = ''Safe'') rs)))
                (Finite (real (length (filter (\<lambda>r. outcome r = ''Safe'') rs)))) = Inr avg \<and>
             average_escape_time py_sum rs = Inr (Some avg)"
    using some by (auto simp add: average_escape_time_eq split: sum.splits)
next
  fix cfg g num_trials rep
  assume "run_trials py_sum cfg g num_trials = Inr rep"
  then show "Inr (average_time rep) = average_escape_time py_sum (records rep)"
    by (rule run_trials_average)
qed


section \<open>Concrete runs on doubles\<close>

lemma sqrt_values:
  "sqrt 25 = 5" "sqrt 36 = 6" "sqrt 625 = 25" "sqrt 2025 = 45"
  "sqrt (132687361 / 65536) = 11519 / 256" "sqrt (33166081 / 16384) = 5759 / 128"
  by (rule real_sqrt_unique; simp add: power2_eq_square)+

lemma start_example:
  "start_trial cfg example_rng =
     ((Bird (Finite 0) (Finite 5) (BIRD_SPEED cfg) (CATCH_RADIUS cfg),
       Worm (Finite 5) (Finite 5) (WORM_SPEED cfg)),
      \<lambda>i. example_rng (Suc (Suc (Suc (Suc i)))))"
  by (simp add: start_trial_def random_uniform_def example_rng_def Let_def Worm_def Bird_def
      fl_exact numeral_2_eq_2 numeral_3_eq_3)



lemma tick1_outcome:
  "tick_outcome timeout_config (Bird (Finite (1 / 256)) (Finite 5) (Finite 1) (Finite 1))
       (Worm (Finite (1281 / 256)) (Finite 5) (Finite 1)) = Inr None"
  by (simp add: tick_outcome_def distance_to_def timeout_config_def Bird_def Worm_def
      norm2_def fl_exact sqrt_values)






lemma fl_overshoot_1: "fl (7 / 25) = Finite (1261007895663739 / 4503599627370496)"
  using fl_scaled [of 54 "7 / 25" 5044031582654956] by (simp add: rne_def)

lemma fl_overshoot_2: "fl (24 / 25) = Finite (1080863910568919 / 1125899906842624)"
  using fl_scaled [of 53 "24 / 25" 8646911284551352] by (simp add: rne_def)

lemma fl_overshoot_3: "fl (31525197391593475 / 4503599627370496) = Finite (7881299347898369 / 1125899906842624)"
  using fl_scaled [of 50 "31525197391593475 / 4503599627370496" 7881299347898369] by (simp add: rne_def)

lemma fl_overshoot_4: "fl (27021597764222975 / 1125899906842624) = Finite (24)"
  using fl_scaled [of 48 "27021597764222975 / 1125899906842624" 6755399441055744] by (simp add: rne_def)

lemma fl_overshoot_5: "fl (7881299347898369 / 1125899906842624) = Finite (7881299347898369 / 1125899906842624)"
  using fl_scaled [of 50 "7881299347898369 / 1125899906842624" 7881299347898369] by (simp add: rne_def)

lemmas fl_overshoot = fl_overshoot_1 fl_overshoot_2 fl_overshoot_3 fl_overshoot_4 fl_overshoot_5













text \<open>
  Claim C3, as stated, fails at equality: a worm at (0, 0) with speed 25 moves toward
  (7, 24) for a step duration of 1. The distance is 25 and so is the travel distance of
  the step; the comparison \<open>distance < max_movement\<close> is false, the full step is
  taken, and the rounded product \<open>(7 / 25) * 25\<close> puts the worm at
  x = 7.000000000000001, beyond the target.
\<close>

theorem overshoot_counterexample:
  "distance_to (Worm (Finite 0) (Finite 0) (Finite 25)) (Finite 7) (Finite 24) = Inr (Finite 25) \<and>
   fmul (speed (Worm (Finite 0) (Finite 0) (Finite 25))) (Finite 1) = Finite 25 \<and>
   move_towards (Worm (Finite 0) (Finite 0) (Finite 25)) (Finite 7) (Finite 24) (Finite 1) =
     Inr (Worm (Finite (7881299347898369 / 2 ^ 50)) (Finite 24) (Finite 25)) \<and>
   (7 :: real) < 7881299347898369 / 2 ^ 50"
  by (simp add: distance_to_def move_towards_def norm2_def Worm_def Let_def fl_exact
      sqrt_values fl_overshoot)


theorem move_towards_zero_distance_witness:
  "distance_to (Worm (Finite 3) (Finite 4) (Finite 2)) (Finite 3) (Finite 4) = Inr (Finite 0) \<and>
   move_towards (Worm (Finite 3) (Finite 4) (Finite 2)) (Finite 3) (Finite 4) (Finite 1) =
     Inr (Worm (Finite 3) (Finite 4) (Finite 2))"
proof -
  have d: "distance_to (Worm (Finite 3) (Finite 4) (Finite 2)) (Finite 3) (Finite 4)
      = Inr (Finite 0)"
    by (simp add: distance_to_def norm2_def Worm_def fl_zero)
  show ?thesis
    using move_towards_zero_distance
      [of "Worm (Finite 3) (Finite 4) (Finite 2)" "Finite 3" "Finite 4" "Finite 1"] d
    by simp
qed

theorem move_towards_reaches_target_witness:
  "distance_to (Worm (Finite 0) (Finite 0) (Finite 6)) (Finite 3) (Finite 4) = Inr (Finite 5) \<and>
   Finite 5 \<noteq> Finite 0 \<and>
   flt (Finite 5) (fmul (speed (Worm (Finite 0) (Finite 0) (Finite 6))) (Finite 1)) \<and>
   move_towards (Worm (Finite 0) (Finite 0) (Finite 6)) (Finite 3) (Finite 4) (Finite 1) =
     Inr (Worm (Finite 3) (Finite 4) (Finite 6))"
proof -
  have d: "distance_to (Worm (Finite 0) (Finite 0) (Finite 6)) (Finite 3) (Finite 4)
      = Inr (Finite 5)"
    by (simp add: distance_to_def norm2_def Worm_def fl_exact sqrt_values)
  have nz: "Finite 5 \<noteq> Finite 0"
    by simp
  have near: "flt (Finite 5) (fmul (speed (Worm (Finite 0) (Finite 0) (Finite 6))) (Finite 1))"
    by (simp add: Worm_def fl_exact)
  show ?thesis
    using d nz near move_towards_reaches_target [OF d nz near] by (simp add: Worm_def)
qed


theorem bird_moves_before_worm_witness:
  "move_towards (Bird (Finite 0) (Finite 5) (Finite 1) (Finite 1))
       (x (Worm (Finite 5) (Finite 5) (Finite 1))) (y (Worm (Finite 5) (Finite 5) (Finite 1)))
       (STEP_TIME timeout_config) =
     Inr (Bird (Finite (1 / 256)) (Finite 5) (Finite 1) (Finite 1)) \<and>
   move_towards (Worm (Finite 5) (Finite 5) (Finite 1)) (fst (SAFE_ZONE_POS timeout_config))
       (snd (SAFE_ZONE_POS timeout_config)) (STEP_TIME timeout_config) =
     Inr (Worm (Finite (1281 / 256)) (Finite 5) (Finite 1)) \<and>
   tick_moves timeout_config (Bird (Finite 0) (Finite 5) (Finite 1) (Finite 1))
       (Worm (Finite 5) (Finite 5) (Finite 1)) =
     Inr (Bird (Finite (1 / 256)) (Finite 5) (Finite 1) (Finite 1),
          Worm (Finite (1281 / 256)) (Finite 5) (Finite 1)) \<and>
   sim_loop timeout_config (Suc 0) 0 (Bird (Finite 0) (Finite 5) (Finite 1) (Finite 1))
       (Worm (Finite 5) (Finite 5) (Finite 1)) (Finite 0) =
     Inr \<lparr>end_outcome = ''Timeout'', end_time = Finite (1 / 256),
          end_bird = Bird (Finite (1 / 256)) (Finite 5) (Finite 1) (Finite 1),
          end_worm = Worm (Finite (1281 / 256)) (Finite 5) (Finite 1), end_steps = Suc 0\<rparr>"
proof -
  have m1: "move_towards (Bird (Finite 0) (Finite 5) (Finite 1) (Finite 1))
       (x (Worm (Finite 5) (Finite 5) (Finite 1))) (y (Worm (Finite 5) (Finite 5) (Finite 1)))
       (STEP_TIME timeout_config) =
     Inr (Bird (Finite (1 / 256)) (Finite 5) (Finite 1) (Finite 1))"
    by (simp add: timeout_config_def Bird_def Worm_def move_towards_def norm2_def Let_def
        fl_exact sqrt_values)
  have m2: "move_towards (Worm (Finite 5) (Finite 5) (Finite 1))
       (fst (SAFE_ZONE_POS timeout_config)) (snd (SAFE_ZONE_POS timeout_config))
       (STEP_TIME timeout_config) =
     Inr (Worm (Finite (1281 / 256)) (Finite 5) (Finite 1))"
    by (simp add: timeout_config_def Worm_def move_towards_def norm2_def Let_def
        fl_exact sqrt_values)
  have st: "fadd (Finite 0) (STEP_TIME timeout_config) = Finite (1 / 256)"
    by (simp add: timeout_config_def fl_exact)
  note inst = bird_moves_before_worm
    [of timeout_config "Bird (Finite 0) (Finite 5) (Finite 1) (Finite 1)"
      "Worm (Finite 5) (Finite 5) (Finite 1)"]
  have step: "tick_moves timeout_config (Bird (Finite 0) (Finite 5) (Finite 1) (Finite 1))
       (Worm (Finite 5) (Finite 5) (Finite 1)) =
     Inr (Bird (Finite (1 / 256)) (Finite 5) (Finite 1) (Finite 1),
          Worm (Finite (1281 / 256)) (Finite 5) (Finite 1)) \<and>
    sim_loop timeout_config (Suc 0) 0 (Bird (Finite 0) (Finite 5) (Finite 1) (Finite 1))
       (Worm (Finite 5) (Finite 5) (Finite 1)) (Finite 0) =
      (case tick_outcome timeout_config (Bird (Finite (1 / 256)) (Finite 5) (Finite 1) (Finite 1))
              (Worm (Finite (1281 / 256)) (Finite 5) (Finite 1)) of
         Inl e \<Rightarrow> Inl e
       | Inr None \<Rightarrow>
           sim_loop timeout_config 0 (Suc 0)
             (Bird (Finite (1 / 256)) (Finite 5) (Finite 1) (Finite 1))
             (Worm (Finite (1281 / 256)) (Finite 5) (Finite 1))
             (fadd (Finite 0) (STEP_TIME timeout_config))
       | Inr (Some kind) \<Rightarrow>
           Inr \<lparr>end_outcome = kind, end_time = fadd (Finite 0) (STEP_TIME timeout_config),
                end_bird = Bird (Finite (1 / 256)) (Finite 5) (Finite 1) (Finite 1),
                end_worm = Worm (Finite (1281 / 256)) (Finite 5) (Finite 1),
                end_steps = Suc 0\<rparr>)"
    using inst m1 m2 by blast
  show ?thesis
    using m1 m2 step by (simp add: tick1_outcome st del: sim_loop.simps(2))
qed





lemma fl_twentieth: "fl (1 / 20) = Finite (7205759403792794 / 2 ^ 57)"
  using fl_scaled [of 57 "1 / 20" 7205759403792794] by (simp add: rne_def)

lemma fl_decimals:
  "fl (1 / 1000) = Finite (4611686018427388 / 2 ^ 62)"
  "fl (1 / 50) = Finite (5764607523034235 / 2 ^ 58)"
  "fl (1 / 10) = Finite (7205759403792794 / 2 ^ 56)"
  using fl_scaled [of 62 "1 / 1000" 4611686018427388] fl_scaled [of 58 "1 / 50" 5764607523034235]
    fl_scaled [of 56 "1 / 10" 7205759403792794]
  by (simp_all add: rne_def)

text \<open>
  Claim C10, as stated, fails in its condition for a limit of 0. With field size -1 and
  speed and step time 1, \<open>2 * field_size < speed * step_time\<close> holds and the limit
  is -2. With the doubles that \<open>float\<close> parses from 0.001, 0.02 and 0.1 for field
  size, worm speed and step time, the inequality holds for their exact values and the
  limit is 1.
\<close>

theorem negative_field_counterexample:
  "(2 * (- 1) :: real) < 1 * 1 \<and>
   max_steps (timeout_config\<lparr>FIELD_SIZE := Finite (- 1), STEP_TIME := Finite 1\<rparr>) = Inr (- 2) \<and>
   fl (1 / 1000) = Finite (4611686018427388 / 2 ^ 62) \<and>
   fl (1 / 50) = Finite (5764607523034235 / 2 ^ 58) \<and>
   fl (1 / 10) = Finite (7205759403792794 / 2 ^ 56) \<and>
   (2 * (4611686018427388 / 2 ^ 62) :: real)
     < 5764607523034235 / 2 ^ 58 * (7205759403792794 / 2 ^ 56) \<and>
   max_steps (timeout_config\<lparr>FIELD_SIZE := Finite (4611686018427388 / 2 ^ 62),
                WORM_SPEED := Finite (5764607523034235 / 2 ^ 58),
                STEP_TIME := Finite (7205759403792794 / 2 ^ 56)\<rparr>) = Inr 1"
  by (simp add: max_steps_def step_quotient_def timeout_config_def fl_exact fl_twentieth
      fl_decimals)

theorem zero_step_cap_witness:
  "max_steps (timeout_config\<lparr>FIELD_SIZE := Finite (1 / 1024)\<rparr>) = Inr 0 \<and>
   step_quotient (timeout_config\<lparr>FIELD_SIZE := Finite (1 / 1024)\<rparr>) = Inr (Finite (1 / 2)) \<and>
   run_trial (timeout_config\<lparr>FIELD_SIZE := Finite (1 / 1024)\<rparr>) example_rng =
     Inr \<lparr>end_outcome = ''Timeout'', end_time = Finite 0,
          end_bird = Bird (Finite 0) (Finite 5) (Finite 1) (Finite 1),
          end_worm = Worm (Finite 5) (Finite 5) (Finite 1), end_steps = 0\<rparr> \<and>
   map_sum id fst (run_simulation (timeout_config\<lparr>FIELD_SIZE := Finite (1 / 1024)\<rparr>)
       example_rng 1) =
     Inr \<lparr>attempt_id = 1, outcome = ''Timeout'', time_s = Finite 0, worm_x = Finite 5,
          worm_y = Finite 5\<rparr>"
proof -
  have q: "step_quotient (timeout_config\<lparr>FIELD_SIZE := Finite (1 / 1024)\<rparr>)
      = Inr (Finite (1 / 2))"
    by (simp add: step_quotient_def timeout_config_def fl_exact)
  have between: "\<exists>q. step_quotient (timeout_config\<lparr>FIELD_SIZE := Finite (1 / 1024)\<rparr>)
      = Inr (Finite q) \<and> - 1 < q \<and> q < 1"
  proof (intro exI conjI)
    show "step_quotient (timeout_config\<lparr>FIELD_SIZE := Finite (1 / 1024)\<rparr>)
      = Inr (Finite (1 / 2))"
      by (rule q)
  qed simp_all
  note inst = zero_step_cap [of "timeout_config\<lparr>FIELD_SIZE := Finite (1 / 1024)\<rparr>" example_rng 1]
  have zero: "max_steps (timeout_config\<lparr>FIELD_SIZE := Finite (1 / 1024)\<rparr>) = Inr 0"
    using inst between by blast
  have draws: "fst (random_uniform 0 10 example_rng) = Finite 5"
    "fst (random_uniform 0 10 (snd (random_uniform 0 10 example_rng))) = Finite 5"
    by (simp_all add: random_uniform_def example_rng_def fl_exact)
  have r5: "py_round (Finite 5) 2 = Finite 5"
    by (simp add: rne_def fl_exact)
  have sel: "BIRD_SPEED (timeout_config\<lparr>FIELD_SIZE := Finite (1 / 1024)\<rparr>) = Finite 1"
    "CATCH_RADIUS (timeout_config\<lparr>FIELD_SIZE := Finite (1 / 1024)\<rparr>) = Finite 1"
    "WORM_SPEED (timeout_config\<lparr>FIELD_SIZE := Finite (1 / 1024)\<rparr>) = Finite 1"
    by (simp_all add: timeout_config_def)
  have run: "run_trial (timeout_config\<lparr>FIELD_SIZE := Finite (1 / 1024)\<rparr>) example_rng =
     Inr \<lparr>end_outcome = ''Timeout'', end_time = Finite 0,
          end_bird = Bird (Finite 0) (Finite 5) (Finite 1) (Finite 1),
          end_worm = Worm (Finite 5) (Finite 5) (Finite 1), end_steps = 0\<rparr>"
    using inst zero by (simp add: start_example sel)
  have sim: "map_sum id fst (run_simulation (timeout_config\<lparr>FIELD_SIZE := Finite (1 / 1024)\<rparr>)
       example_rng 1) =
     Inr \<lparr>attempt_id = 1, outcome = ''Timeout'', time_s = Finite 0, worm_x = Finite 5,
          worm_y = Finite 5\<rparr>"
    using inst zero by (simp add: draws r5 del: py_round.simps)
  show ?thesis
    using zero q run sim by blast
qed

lemma run_trial_safe:
  "run_trial (safe_config (- 1)) example_rng =
     Inr \<lparr>end_outcome = ''Safe'', end_time = Finite 1,
          end_bird = Bird (Finite (- 1)) (Finite 5) (Finite (- 1)) (Finite 1),
          end_worm = Worm (Finite 5) (Finite 5) (Finite 1), end_steps = 1\<rparr>"
proof -
  have lim: "max_steps (safe_config (- 1)) = Inr 1"
    by (simp add: max_steps_def step_quotient_def safe_config_def fl_exact)
  have m1: "tick_moves (safe_config (- 1)) (Bird (Finite 0) (Finite 5) (Finite (- 1)) (Finite 1))
        (Worm (Finite 5) (Finite 5) (Finite 1)) =
      Inr (Bird (Finite (- 1)) (Finite 5) (Finite (- 1)) (Finite 1),
           Worm (Finite 5) (Finite 5) (Finite 1))"
    by (simp add: tick_moves_def hunt_def seek_safety_def safe_config_def Bird_def Worm_def
        move_towards_def norm2_def Let_def fl_exact fl_zero sqrt_values)
  have o1: "tick_outcome (safe_config (- 1))
        (Bird (Finite (- 1)) (Finite 5) (Finite (- 1)) (Finite 1))
        (Worm (Finite 5) (Finite 5) (Finite 1)) = Inr (Some ''Safe'')"
    by (simp add: tick_outcome_def distance_to_def safe_config_def Bird_def Worm_def
        norm2_def fl_exact fl_zero sqrt_values)
  have sel: "STEP_TIME (safe_config (- 1)) = Finite 1" "BIRD_SPEED (safe_config (- 1)) = Finite (- 1)"
    "CATCH_RADIUS (safe_config (- 1)) = Finite 1" "WORM_SPEED (safe_config (- 1)) = Finite 1"
    by (simp_all add: safe_config_def)
  have loop: "sim_loop (safe_config (- 1)) (Suc 0) 0
      (Bird (Finite 0) (Finite 5) (Finite (- 1)) (Finite 1))
      (Worm (Finite 5) (Finite 5) (Finite 1)) (Finite 0) =
     Inr \<lparr>end_outcome = ''Safe'', end_time = Finite 1,
          end_bird = Bird (Finite (- 1)) (Finite 5) (Finite (- 1)) (Finite 1),
          end_worm = Worm (Finite 5) (Finite 5) (Finite 1), end_steps = 1\<rparr>"
    by (simp add: sel m1 o1 Let_def fl_exact)
  show ?thesis
    by (simp add: run_trial_eq start_example lim sel loop del: sim_loop.simps)
qed

lemma run_trials_safe:
  "run_trials sum_left (safe_config (- 1)) example_rng 1 =
     Inr \<lparr>records = [\<lparr>attempt_id = 1, outcome = ''Safe'', time_s = Finite 1,
                       worm_x = Finite 5, worm_y = Finite 5\<rparr>],
          safe_count = 1, safe_share = Finite 1, caught_count = 0, caught_share = Finite 0,
          timeouts = 0, average_time = Some (Finite 1),
          detailed = [\<lparr>attempt_id = 1, outcome = ''Safe'', time_s = Finite 1,
                        worm_x = Finite 5, worm_y = Finite 5\<rparr>]\<rparr>"
proof -
  have r: "py_round (Finite 1) 2 = Finite 1" "py_round (Finite 5) 2 = Finite 5"
    by (simp_all add: rne_def fl_exact)
  have sim: "run_simulation (safe_config (- 1)) example_rng 1 =
      Inr (\<lparr>attempt_id = 1, outcome = ''Safe'', time_s = Finite 1, worm_x = Finite 5,
            worm_y = Finite 5\<rparr>,
           \<lambda>i. example_rng (Suc (Suc (Suc (Suc i)))))"
    using r by (simp add: run_simulation_def run_trial_safe make_result_def Worm_def
        start_example del: py_round.simps)
  have loop: "trials_loop (safe_config (- 1)) (Suc 0) 1 example_rng [] =
      Inr ([\<lparr>attempt_id = 1, outcome = ''Safe'', time_s = Finite 1, worm_x = Finite 5,
             worm_y = Finite 5\<rparr>],
           \<lambda>i. example_rng (Suc (Suc (Suc (Suc i)))))"
    by (simp add: sim)
  show ?thesis
    using loop
    by (simp add: run_trials_def int_truediv_def average_escape_time_def sum_left_def Let_def
        fl_exact fl_zero)
qed





theorem average_over_safe_only_witness:
  "filter (\<lambda>r. outcome r = ''Safe'')
     [\<lparr>attempt_id = 1, outcome = ''Safe'', time_s = Finite 2, worm_x = Finite 5,
       worm_y = Finite 5\<rparr>,
      \<lparr>attempt_id = 2, outcome = ''Caught'', time_s = Finite 7, worm_x = Finite 1,
       worm_y = Finite 1\<rparr>,
      \<lparr>attempt_id = 3, outcome = ''Safe'', time_s = Finite 4, worm_x = Finite 5,
       worm_y = Finite 5\<rparr>] \<noteq> [] \<and>
   average_escape_time sum_left
     [\<lparr>attempt_id = 1, outcome = ''Safe'', time_s = Finite 2, worm_x = Finite 5,
       worm_y = Finite 5\<rparr>,
      \<lparr>attempt_id = 2, outcome = ''Caught'', time_s = Finite 7, worm_x = Finite 1,
       worm_y = Finite 1\<rparr>,
      \<lparr>attempt_id = 3, outcome = ''Safe'', time_s = Finite 4, worm_x = Finite 5,
       worm_y = Finite 5\<rparr>] = Inr (Some (Finite 3)) \<and>
   average_escape_time sum_left
     [\<lparr>attempt_id = 1, outcome = ''Caught'', time_s = Finite 7, worm_x = Finite 1,
       worm_y = Finite 1\<rparr>] = Inr None \<and>
   average_escape_time sum_left
     [\<lparr>attempt_id = 1, outcome = ''Safe'', time_s = Finite 1, worm_x = Finite 5,
       worm_y = Finite 5\<rparr>] = Inr (Some (Finite 1))"
proof -
  have mixed: "average_escape_time sum_left
     [\<lparr>attempt_id = 1, outcome = ''Safe'', time_s = Finite 2, worm_x = Finite 5,
       worm_y = Finite 5\<rparr>,
      \<lparr>attempt_id = 2, outcome = ''Caught'', time_s = Finite 7, worm_x = Finite 1,
       worm_y = Finite 1\<rparr>,
      \<lparr>attempt_id = 3, outcome = ''Safe'', time_s = Finite 4, worm_x = Finite 5,
       worm_y = Finite 5\<rparr>] = Inr (Some (Finite 3))"
    using average_over_safe_only
      [of sum_left
        "[\<lparr>attempt_id = 1, outcome = ''Safe'', time_s = Finite 2, worm_x = Finite 5,
           worm_y = Finite 5\<rparr>,
          \<lparr>attempt_id = 2, outcome = ''Caught'', time_s = Finite 7, worm_x = Finite 1,
           worm_y = Finite 1\<rparr>,
          \<lparr>attempt_id = 3, outcome = ''Safe'', time_s = Finite 4, worm_x = Finite 5,
           worm_y = Finite 5\<rparr>]"]
    by (auto simp add: sum_left_def fl_exact)
  have none: "average_escape_time sum_left
     [\<lparr>attempt_id = 1, outcome = ''Caught'', time_s = Finite 7, worm_x = Finite 1,
       worm_y = Finite 1\<rparr>] = Inr None"
    using average_over_safe_only
      [of sum_left "[\<lparr>attempt_id = 1, outcome = ''Caught'', time_s = Finite 7,
         worm_x = Finite 1, worm_y = Finite 1\<rparr>]"]
    by simp
  have "Inr (average_time
               \<lparr>records = [\<lparr>attempt_id = 1, outcome = ''Safe'', time_s = Finite 1,
                             worm_x = Finite 5, worm_y = Finite 5\<rparr>],
                safe_count = 1, safe_share = Finite 1, caught_count = 0,
                caught_share = Finite 0, timeouts = 0, average_time = Some (Finite 1),
                detailed = [\<lparr>attempt_id = 1, outcome = ''Safe'', time_s = Finite 1,
                              worm_x = Finite 5, worm_y = Finite 5\<rparr>]\<rparr>) =
        average_escape_time sum_left
          (records
               \<lparr>records = [\<lparr>attempt_id = 1, outcome = ''Safe'', time_s = Finite 1,
                             worm_x = Finite 5, worm_y = Finite 5\<rparr>],
                safe_count = 1, safe_share = Finite 1, caught_count = 0,
                caught_share = Finite 0, timeouts = 0, average_time = Some (Finite 1),
                detailed = [\<lparr>attempt_id = 1, outcome = ''Safe'', time_s = Finite 1,
                              worm_x = Finite 5, worm_y = Finite 5\<rparr>]\<rparr>)"
    using average_over_safe_only [of sum_left "[]"] run_trials_safe by blast
  then have one: "average_escape_time sum_left
     [\<lparr>attempt_id = 1, outcome = ''Safe'', time_s = Finite 1, worm_x = Finite 5,
       worm_y = Finite 5\<rparr>] = Inr (Some (Finite 1))"
    by simp
  show ?thesis
    using mixed none one by simp
qed

end
